theory Spec2Isabelle
  imports Complex_Main
begin

section \<open>JavaScript values used by the ledger\<close>

text \<open>
  A JavaScript Number is modelled by the value it denotes: \<open>NaN\<close>, the two
  infinities, or a finite value, kept as an exact rational. Rounding of finite results to
  the nearest double (overflow to an infinity with it) and the sign of zero are outside
  the model; every branch the ledger
  takes on a number (\<open>x || 0\<close>, \<open>x > 0\<close>, division by zero, \<open>NaN\<close>
  propagation) is inside it.
\<close>

datatype number = NaN | PosInf | NegInf | Fin rat

fun isFinite :: "number \<Rightarrow> bool" where
  "isFinite (Fin _) = True"
| "isFinite _ = False"

text \<open>\<open>a + b\<close> on Numbers.\<close>

fun jsadd :: "number \<Rightarrow> number \<Rightarrow> number" where
  "jsadd NaN _ = NaN"
| "jsadd _ NaN = NaN"
| "jsadd PosInf NegInf = NaN"
| "jsadd NegInf PosInf = NaN"
| "jsadd PosInf _ = PosInf"
| "jsadd _ PosInf = PosInf"
| "jsadd NegInf _ = NegInf"
| "jsadd _ NegInf = NegInf"
| "jsadd (Fin a) (Fin b) = Fin (a + b)"

text \<open>Unary minus and \<open>a - b\<close>.\<close>

fun jsneg :: "number \<Rightarrow> number" where
  "jsneg NaN = NaN"
| "jsneg PosInf = NegInf"
| "jsneg NegInf = PosInf"
| "jsneg (Fin a) = Fin (- a)"

definition jssub :: "number \<Rightarrow> number \<Rightarrow> number" where
  "jssub a b = jsadd a (jsneg b)"

text \<open>The sign of a non-\<open>NaN\<close> number: \<open>1\<close>, \<open>0\<close> or \<open>-1\<close>.\<close>

fun jssign :: "number \<Rightarrow> int" where
  "jssign NaN = 0"
| "jssign PosInf = 1"
| "jssign NegInf = - 1"
| "jssign (Fin a) = (if 0 < a then 1 else if a < 0 then - 1 else 0)"

definition signed_inf :: "int \<Rightarrow> number" where
  "signed_inf s = (if 0 < s then PosInf else if s < 0 then NegInf else NaN)"

text \<open>\<open>a * b\<close>: an infinity times zero is \<open>NaN\<close>.\<close>

fun jsmul :: "number \<Rightarrow> number \<Rightarrow> number" where
  "jsmul NaN _ = NaN"
| "jsmul _ NaN = NaN"
| "jsmul (Fin a) (Fin b) = Fin (a * b)"
| "jsmul a b = signed_inf (jssign a * jssign b)"

text \<open>
  \<open>a / b\<close>: a finite non-zero value over zero is an infinity, zero over zero and an
  infinity over an infinity are \<open>NaN\<close>, a finite value over an infinity is zero. The
  model has one zero, the positive one.
\<close>

fun jsdiv :: "number \<Rightarrow> number \<Rightarrow> number" where
  "jsdiv NaN _ = NaN"
| "jsdiv _ NaN = NaN"
| "jsdiv (Fin a) (Fin b) = (if b = 0 then signed_inf (jssign (Fin a)) else Fin (a / b))"
| "jsdiv (Fin a) _ = Fin 0"
| "jsdiv a (Fin b) = signed_inf (jssign a * (if b < 0 then - 1 else 1))"
| "jsdiv _ _ = NaN"

text \<open>\<open>a > b\<close>: false whenever an operand is \<open>NaN\<close>.\<close>

fun jsgt :: "number \<Rightarrow> number \<Rightarrow> bool" where
  "jsgt NaN _ = False"
| "jsgt _ NaN = False"
| "jsgt PosInf b = (b \<noteq> PosInf)"
| "jsgt NegInf _ = False"
| "jsgt (Fin a) PosInf = False"
| "jsgt (Fin a) NegInf = True"
| "jsgt (Fin a) (Fin b) = (b < a)"

text \<open>
  \<open>x || 0\<close> on a Number: the falsy Numbers are \<open>NaN\<close> and zero; every other
  Number, negative and infinite ones included, is kept.
\<close>

definition or_zero :: "number \<Rightarrow> number" where
  "or_zero x = (if x = NaN \<or> x = Fin 0 then Fin 0 else x)"

text \<open>\<open>m[k] || 0\<close> on a dictionary entry that may be absent (\<open>undefined\<close>).\<close>

definition lookup_or_zero :: "number option \<Rightarrow> number" where
  "lookup_or_zero v = (case v of None \<Rightarrow> Fin 0 | Some x \<Rightarrow> or_zero x)"

text \<open>
  \<open>s || d\<close> on a string field that may be absent: \<open>undefined\<close> and the empty
  string are falsy.
\<close>

definition or_default :: "string option \<Rightarrow> string \<Rightarrow> string" where
  "or_default v d = (case v of None \<Rightarrow> d | Some s \<Rightarrow> if s = [] then d else s)"

subsection \<open>Strings\<close>

text \<open>
  A string is the list of its code units; the model covers code units below 256, so a
  \<open>char\<close> is one code unit and \<open>length\<close> is JavaScript's \<open>length\<close>.
\<close>

definition is_digit :: "char \<Rightarrow> bool" where
  "is_digit c = (c \<in> set ''0123456789'')"

definition digit_val :: "char \<Rightarrow> nat" where
  "digit_val c = of_char c - (48::nat)"

text \<open>White space and line terminators that \<open>trim\<close> and \<open>parseFloat\<close> strip.\<close>

definition is_js_space :: "char \<Rightarrow> bool" where
  "is_js_space c = (c \<in> set [CHR 0x09, CHR 0x0A, CHR 0x0B, CHR 0x0C, CHR 0x0D, CHR 0x20, CHR 0xA0])"

definition trim :: "string \<Rightarrow> string" where
  "trim s = rev (dropWhile is_js_space (rev (dropWhile is_js_space s)))"

text \<open>\<open>s.substring(0, n)\<close> and \<open>s.startsWith(p)\<close>.\<close>

definition substring0 :: "nat \<Rightarrow> string \<Rightarrow> string" where
  "substring0 n s = take n s"

definition startsWith :: "string \<Rightarrow> string \<Rightarrow> bool" where
  "startsWith s p = (take (length p) s = p)"

subsection \<open>parseFloat\<close>

text \<open>
  \<open>parseFloat(s)\<close> skips leading white space and reads the longest prefix that is a
  decimal literal: an optional sign, then \<open>Infinity\<close> or digits with an optional
  fraction and an optional exponent. A string with no such prefix gives \<open>NaN\<close>.
\<close>

definition digits_val :: "string \<Rightarrow> nat" where
  "digits_val ds = foldl (\<lambda>a d. 10 * a + digit_val d) 0 ds"

text \<open>
  The exponent part: \<open>e\<close> or \<open>E\<close>, an optional sign and at least one digit;
  anything else is not part of the literal and counts as exponent \<open>0\<close>.
\<close>

definition parse_exponent :: "string \<Rightarrow> int" where
  "parse_exponent s =
     (case s of
        [] \<Rightarrow> 0
      | c # r \<Rightarrow>
          if c = CHR ''e'' \<or> c = CHR ''E'' then
            (case r of
               [] \<Rightarrow> 0
             | d # r' \<Rightarrow>
                 if d = CHR ''-'' then
                   (if takeWhile is_digit r' = [] then 0
                    else - int (digits_val (takeWhile is_digit r')))
                 else if d = CHR ''+'' then int (digits_val (takeWhile is_digit r'))
                 else int (digits_val (takeWhile is_digit r)))
          else 0)"

definition pow10 :: "int \<Rightarrow> rat" where
  "pow10 e = (if 0 \<le> e then 10 ^ nat e else 1 / 10 ^ nat (- e))"

text \<open>The unsigned literal: \<open>Infinity\<close>, \<open>ddd\<close>, \<open>ddd.ddd\<close>, \<open>.ddd\<close>, each with an exponent.\<close>

definition parse_unsigned :: "string \<Rightarrow> number" where
  "parse_unsigned s =
     (if take 8 s = ''Infinity'' then PosInf
      else
        let ip = takeWhile is_digit s;
            r = dropWhile is_digit s;
            fp = (case r of [] \<Rightarrow> [] | c # r' \<Rightarrow> if c = CHR ''.'' then takeWhile is_digit r' else []);
            r2 = (case r of [] \<Rightarrow> [] | c # r' \<Rightarrow> if c = CHR ''.'' then dropWhile is_digit r' else r)
        in if ip = [] \<and> fp = [] then NaN
           else Fin (of_nat (digits_val (ip @ fp)) / 10 ^ length fp * pow10 (parse_exponent r2)))"

definition parseFloat :: "string \<Rightarrow> number" where
  "parseFloat s =
     (case dropWhile is_js_space s of
        [] \<Rightarrow> NaN
      | c # r \<Rightarrow>
          if c = CHR ''-'' then jsneg (parse_unsigned r)
          else if c = CHR ''+'' then parse_unsigned r
          else parse_unsigned (c # r))"

text \<open>
  A value handed to the engine where the code reads a number: a string (form input), a
  Number, or \<open>undefined\<close> (the field is absent).
\<close>

datatype jsval = JUndefined | JString string | JNumber number

text \<open>
  \<open>parseFloat(v)\<close> first converts \<open>v\<close> to a string. \<open>undefined\<close> becomes the
  string \<open>undefined\<close>. A Number becomes its shortest decimal numeral (or \<open>NaN\<close>,
  \<open>Infinity\<close>, \<open>-Infinity\<close>), which \<open>parseFloat\<close> reads back as the same
  Number, so on a Number the composition is the identity.
\<close>

fun parseFloat_val :: "jsval \<Rightarrow> number" where
  "parseFloat_val JUndefined = parseFloat ''undefined''"
| "parseFloat_val (JString s) = parseFloat s"
| "parseFloat_val (JNumber n) = n"

subsection \<open>Plain objects used as dictionaries\<close>

text \<open>
  \<open>expensesByCategory\<close> is an object literal \<open>{}\<close>: it has the own properties the
  code assigns and inherits the members of \<open>Object.prototype\<close>. The value of an own
  property is a Number, or a string once \<open>+\<close> has concatenated. The text of such a
  string depends on the host (the source text of a built-in function), so a string is kept
  as what it is made of: \<open>StringValue k as\<close> is the text of the inherited member \<open>k\<close>
  followed by the decimal text of each Number of \<open>as\<close>, in order. It is never empty.
\<close>

datatype property = NumberValue number | StringValue string "number list"

text \<open>The names \<open>Object.prototype\<close> defines: its methods, and the accessor \<open>__proto__\<close>.\<close>

definition object_prototype_members :: "string list" where
  "object_prototype_members =
     [''constructor'', ''hasOwnProperty'', ''isPrototypeOf'', ''propertyIsEnumerable'',
      ''toLocaleString'', ''toString'', ''valueOf'', ''__proto__'', ''__defineGetter__'',
      ''__defineSetter__'', ''__lookupGetter__'', ''__lookupSetter__'']"

text \<open>
  What \<open>obj[k]\<close> reads: the own property, else the inherited member of that name (a
  function, or the prototype object for \<open>__proto__\<close>), else \<open>undefined\<close>.
\<close>

datatype jsread = Undefined | Inherited string | Own property

definition object_get :: "(string \<rightharpoonup> property) \<Rightarrow> string \<Rightarrow> jsread" where
  "object_get m k =
     (case m k of
        Some v \<Rightarrow> Own v
      | None \<Rightarrow> if k \<in> set object_prototype_members then Inherited k else Undefined)"

text \<open>
  What \<open>obj[k] = v\<close> does for a Number or a string \<open>v\<close>: it creates or replaces the own
  property, except for \<open>__proto__\<close>, whose inherited setter ignores a value that is not
  an object and creates no property.
\<close>

definition object_set :: "(string \<rightharpoonup> property) \<Rightarrow> string \<Rightarrow> property \<Rightarrow> (string \<rightharpoonup> property)" where
  "object_set m k v = (if k = ''__proto__'' then m else m(k \<mapsto> v))"

text \<open>
  \<open>(r || 0) + a\<close> for a Number \<open>a\<close>: \<open>undefined\<close> and a falsy Number give
  \<open>0 + a\<close>; a string, a function and an object are truthy, and \<open>+\<close> then concatenates
  their text with the text of \<open>a\<close>.
\<close>

fun or_zero_plus :: "jsread \<Rightarrow> number \<Rightarrow> property" where
  "or_zero_plus Undefined a = NumberValue (jsadd (Fin 0) a)"
| "or_zero_plus (Own (NumberValue x)) a = NumberValue (jsadd (or_zero x) a)"
| "or_zero_plus (Own (StringValue k as)) a = StringValue k (as @ [a])"
| "or_zero_plus (Inherited k) a = StringValue k [a]"

section \<open>The data model\<close>

text \<open>
  The interfaces of \<open>DataManager.ts\<close>. Field names are the source's; a field whose
  name another record or a library constant already uses carries a suffix. The
  \<open>description\<close> of a stored transaction may be absent: \<open>addTransaction\<close> copies
  it from an untyped argument.
\<close>

record UserProfile =
  name :: string
  email :: string
  createdAt :: string
  lastLogin :: string

record Transaction =
  id_tx :: string
  description :: "string option"
  amount :: number
  type_tx :: string
  category :: string
  date :: string
  createdAt_tx :: string

record Financial =
  monthlyIncomes :: "string \<rightharpoonup> number"
  transactions :: "Transaction list"
  categories :: "string list"
  goals :: "jsval list"

record Settings =
  currency :: string
  theme :: string
  notifications :: bool

record UserData =
  id_user :: string
  profile :: UserProfile
  financial :: Financial
  settings :: Settings

record AppData =
  users :: "string \<rightharpoonup> UserData"
  currentUserId :: "string option"
  version :: string

text \<open>
  The state of the singleton. \<open>this.currentUser\<close> is a reference to one of the objects
  held in \<open>this.data.users\<close> (or \<open>null\<close>): the model keeps the key under which that
  object is stored, so a write through \<open>this.currentUser\<close> is a write to
  \<open>this.data.users\<close>, as in the source. \<open>localStorage\<close> is the blob last written
  under \<open>STORAGE_KEY\<close>; JSON serialisation is not modelled, the blob is the data
  itself.
\<close>

record DataManager =
  data :: AppData
  currentUser :: "string option"
  localStorage :: "AppData option"

text \<open>
  What the host answers during one call: the clock (\<open>Date.now()\<close> and the
  \<open>new Date().toISOString()\<close> readings, one per place of use), \<open>Math.random().toString(36)\<close>,
  and whether \<open>localStorage.setItem\<close> returns (\<open>True\<close>) or throws.
\<close>

record Host =
  dateNow :: nat
  randomString :: string
  isoDate :: string
  isoCreatedAt :: string
  isoLastLogin :: string
  setItemOk :: bool

text \<open>The untyped arguments of \<open>registerUser\<close> and \<open>addTransaction\<close>.\<close>

record UserInput =
  name_in :: string
  email_in :: string

record TransactionInput =
  description_in :: "string option"
  amount_in :: jsval
  type_in :: string
  category_in :: "string option"
  date_in :: "string option"

text \<open>The result object \<open>{ success, user?, message? }\<close>.\<close>

datatype AuthResult = Success UserData | Failure string

record Summary =
  period :: string
  monthlyIncome :: number
  totalIncome :: number
  totalExpenses :: number
  balance :: number
  transactionCount :: nat
  expensesByCategory :: "string \<rightharpoonup> property"
  transactions_summary :: "Transaction list"

record Delta =
  incomeChange :: number
  expenseChange :: number
  balanceChange :: number
  incomeChangePercent :: number
  expenseChangePercent :: number

record Comparison =
  period1 :: Summary
  period2 :: Summary
  comparison :: Delta

section \<open>Persistence and session\<close>

definition emptyData :: AppData where
  "emptyData = \<lparr>users = Map.empty, currentUserId = None, version = ''2.0.0''\<rparr>"

definition loadData :: "AppData option \<Rightarrow> AppData" where
  "loadData stored = (case stored of None \<Rightarrow> emptyData | Some d \<Rightarrow> d)"

text \<open>
  The constructor of \<open>DataManager.ts\<close> restores the session when the stored
  \<open>currentUserId\<close> is truthy and names a stored user; the one of \<open>DataManager.js\<close>
  starts with no current user.
\<close>

definition constructor :: "AppData option \<Rightarrow> DataManager" where
  "constructor stored =
     (let d = loadData stored in
      \<lparr>data = d,
       currentUser =
         (case currentUserId d of
            None \<Rightarrow> None
          | Some i \<Rightarrow> if i \<noteq> [] \<and> users d i \<noteq> None then Some i else None),
       localStorage = stored\<rparr>)"

definition constructor_js :: "AppData option \<Rightarrow> DataManager" where
  "constructor_js stored = \<lparr>data = loadData stored, currentUser = None, localStorage = stored\<rparr>"

definition saveData :: "Host \<Rightarrow> DataManager \<Rightarrow> bool \<times> DataManager" where
  "saveData h dm =
     (if setItemOk h then (True, dm\<lparr>localStorage := Some (data dm)\<rparr>) else (False, dm))"

text \<open>The object \<open>this.currentUser\<close> refers to, and a write through that reference.\<close>

definition currentUserObj :: "DataManager \<Rightarrow> UserData option" where
  "currentUserObj dm = (case currentUser dm of None \<Rightarrow> None | Some r \<Rightarrow> users (data dm) r)"

definition update_currentUser :: "(UserData \<Rightarrow> UserData) \<Rightarrow> DataManager \<Rightarrow> DataManager" where
  "update_currentUser f dm =
     (case currentUser dm of
        None \<Rightarrow> dm
      | Some r \<Rightarrow>
          (case users (data dm) r of
             None \<Rightarrow> dm
           | Some u \<Rightarrow> dm\<lparr>data := (data dm)\<lparr>users := (users (data dm))(r \<mapsto> f u)\<rparr>\<rparr>))"

definition defaultCategories :: "string list" where
  "defaultCategories =
     [''Alimenta'' @ [CHR 0xE7, CHR 0xE3] @ ''o'', ''Transporte'', ''Moradia'',
      ''Sa'' @ [CHR 0xFA] @ ''de'', ''Educa'' @ [CHR 0xE7, CHR 0xE3] @ ''o'', ''Lazer'',
      ''Compras'', ''Outros'']"

definition createUserStructure :: "Host \<Rightarrow> string \<Rightarrow> UserInput \<Rightarrow> UserData" where
  "createUserStructure h userId userData =
     \<lparr>id_user = userId,
      profile = \<lparr>name = name_in userData, email = email_in userData,
                 createdAt = isoCreatedAt h, lastLogin = isoLastLogin h\<rparr>,
      financial = \<lparr>monthlyIncomes = Map.empty, transactions = [],
                   categories = defaultCategories, goals = []\<rparr>,
      settings = \<lparr>currency = ''BRL'', theme = ''light'', notifications = True\<rparr>\<rparr>"

subsection \<open>Identifiers\<close>

text \<open>\<open>toLowerCase\<close> on code units below 256: \<open>A-Z\<close> and the accented capitals.\<close>

definition toLowerCase_char :: "char \<Rightarrow> char" where
  "toLowerCase_char c =
     (let n = (of_char c :: nat)
      in if (65 \<le> n \<and> n \<le> 90) \<or> (192 \<le> n \<and> n \<le> 222 \<and> n \<noteq> 215)
         then char_of (n + 32) else c)"

definition toLowerCase :: "string \<Rightarrow> string" where
  "toLowerCase s = map toLowerCase_char s"

text \<open>\<open>btoa\<close>: base64 of the code units, with \<open>=\<close> padding.\<close>

definition b64_alphabet :: string where
  "b64_alphabet = ''ABCDEFGHIJKLMNOPQRSTUVWXYZabcdefghijklmnopqrstuvwxyz0123456789+/''"

definition b64 :: "nat \<Rightarrow> char" where
  "b64 n = b64_alphabet ! (n mod 64)"

fun btoa_nat :: "nat list \<Rightarrow> string" where
  "btoa_nat [] = []"
| "btoa_nat [a] = [b64 (a div 4), b64 ((a mod 4) * 16), CHR ''='', CHR ''='']"
| "btoa_nat [a, b] =
     [b64 (a div 4), b64 ((a mod 4) * 16 + b div 16), b64 ((b mod 16) * 4), CHR ''='']"
| "btoa_nat (a # b # c # r) =
     [b64 (a div 4), b64 ((a mod 4) * 16 + b div 16), b64 ((b mod 16) * 4 + c div 64), b64 (c mod 64)]
     @ btoa_nat r"

definition btoa :: "string \<Rightarrow> string" where
  "btoa s = btoa_nat (map of_char s)"

definition is_alnum :: "char \<Rightarrow> bool" where
  "is_alnum c =
     (let n = (of_char c :: nat)
      in (48 \<le> n \<and> n \<le> 57) \<or> (65 \<le> n \<and> n \<le> 90) \<or> (97 \<le> n \<and> n \<le> 122))"

definition generateUserId :: "string \<Rightarrow> string" where
  "generateUserId e = filter is_alnum (btoa (toLowerCase e))"

text \<open>\<open>n.toString(36)\<close> on a non-negative integer.\<close>

definition digit36 :: "nat \<Rightarrow> char" where
  "digit36 n = ''0123456789abcdefghijklmnopqrstuvwxyz'' ! (n mod 36)"

fun toString36 :: "nat \<Rightarrow> string" where
  "toString36 n = (if n < 36 then [digit36 n] else toString36 (n div 36) @ [digit36 (n mod 36)])"

declare toString36.simps [simp del]

definition generateTransactionId :: "Host \<Rightarrow> string" where
  "generateTransactionId h = toString36 (dateNow h) @ drop 2 (randomString h)"

text \<open>\<open>s.split('T')[0]\<close>: the part before the first \<open>T\<close>.\<close>

definition split_T_first :: "string \<Rightarrow> string" where
  "split_T_first s = takeWhile (\<lambda>c. c \<noteq> CHR ''T'') s"

section \<open>The operations of DataManager.ts\<close>

text \<open>
  Every operation that writes takes the host's answers and the state, and returns its
  result with the new state. An operation that only reads takes the state.
\<close>

definition registerUser :: "Host \<Rightarrow> UserInput \<Rightarrow> DataManager \<Rightarrow> AuthResult \<times> DataManager" where
  "registerUser h userData dm =
     (let userId = generateUserId (email_in userData) in
      case users (data dm) userId of
        Some _ \<Rightarrow> (Failure (''Usu'' @ [CHR 0xE1] @ ''rio j'' @ [CHR 0xE1] @ '' existe''), dm)
      | None \<Rightarrow>
          let u = createUserStructure h userId userData;
              dm1 = dm\<lparr>data := (data dm)\<lparr>users := (users (data dm))(userId \<mapsto> u),
                                           currentUserId := Some userId\<rparr>,
                       currentUser := Some userId\<rparr>;
              (ok, dm2) = saveData h dm1
          in if ok then (Success u, dm2) else (Failure ''Erro ao salvar dados'', dm2))"

definition loginUser :: "Host \<Rightarrow> string \<Rightarrow> string \<Rightarrow> DataManager \<Rightarrow> AuthResult \<times> DataManager" where
  "loginUser h e password dm =
     (let userId = generateUserId e in
      case users (data dm) userId of
        None \<Rightarrow> (Failure (''Usu'' @ [CHR 0xE1] @ ''rio n'' @ [CHR 0xE3] @ ''o encontrado''), dm)
      | Some user \<Rightarrow>
          let user' = user\<lparr>profile := (profile user)\<lparr>lastLogin := isoLastLogin h\<rparr>\<rparr>;
              dm1 = dm\<lparr>data := (data dm)\<lparr>users := (users (data dm))(userId \<mapsto> user'),
                                           currentUserId := Some userId\<rparr>,
                       currentUser := Some userId\<rparr>
          in (Success user', snd (saveData h dm1)))"

definition logout :: "Host \<Rightarrow> DataManager \<Rightarrow> DataManager" where
  "logout h dm =
     snd (saveData h (dm\<lparr>currentUser := None, data := (data dm)\<lparr>currentUserId := None\<rparr>\<rparr>))"

definition getMonthlyIncome :: "DataManager \<Rightarrow> string \<Rightarrow> number" where
  "getMonthlyIncome dm yearMonth =
     (case currentUserObj dm of
        None \<Rightarrow> Fin 0
      | Some u \<Rightarrow> lookup_or_zero (monthlyIncomes (financial u) yearMonth))"

text \<open>
  The parameter is declared \<open>number\<close>; the stored value is
  \<open>parseFloat(amount.toString()) || 0\<close>.
\<close>

definition setMonthlyIncome :: "Host \<Rightarrow> string \<Rightarrow> number \<Rightarrow> DataManager \<Rightarrow> bool \<times> DataManager" where
  "setMonthlyIncome h yearMonth a dm =
     (case currentUserObj dm of
        None \<Rightarrow> (False, dm)
      | Some _ \<Rightarrow>
          saveData h
            (update_currentUser
               (\<lambda>u. u\<lparr>financial := (financial u)
                    \<lparr>monthlyIncomes :=
                       (monthlyIncomes (financial u))(yearMonth \<mapsto> or_zero (parseFloat_val (JNumber a)))\<rparr>\<rparr>)
               dm))"

text \<open>\<open>Transaction | false\<close> is an option: \<open>None\<close> is \<open>false\<close>.\<close>

definition addTransaction ::
  "Host \<Rightarrow> TransactionInput \<Rightarrow> DataManager \<Rightarrow> Transaction option \<times> DataManager" where
  "addTransaction h transactionData dm =
     (case currentUserObj dm of
        None \<Rightarrow> (None, dm)
      | Some _ \<Rightarrow>
          let transaction =
                \<lparr>id_tx = generateTransactionId h,
                 description = description_in transactionData,
                 amount = parseFloat_val (amount_in transactionData),
                 type_tx = type_in transactionData,
                 category = or_default (category_in transactionData) ''Outros'',
                 date = or_default (date_in transactionData) (split_T_first (isoDate h)),
                 createdAt_tx = isoCreatedAt h\<rparr>;
              dm1 = update_currentUser
                      (\<lambda>u. u\<lparr>financial := (financial u)
                           \<lparr>transactions := transaction # transactions (financial u)\<rparr>\<rparr>)
                      dm;
              (ok, dm2) = saveData h dm1
          in (if ok then Some transaction else None, dm2))"

text \<open>\<open>findIndex\<close> returns the first index where the test holds, or \<open>-1\<close>.\<close>

fun findIndex :: "('a \<Rightarrow> bool) \<Rightarrow> 'a list \<Rightarrow> int" where
  "findIndex P [] = - 1"
| "findIndex P (x # xs) =
     (if P x then 0 else (let i = findIndex P xs in if i = - 1 then - 1 else i + 1))"

text \<open>\<open>xs.splice(i, 1)\<close> for an index inside the array.\<close>

definition splice1 :: "nat \<Rightarrow> 'a list \<Rightarrow> 'a list" where
  "splice1 i xs = take i xs @ drop (Suc i) xs"

definition removeTransaction :: "Host \<Rightarrow> string \<Rightarrow> DataManager \<Rightarrow> bool \<times> DataManager" where
  "removeTransaction h transactionId dm =
     (case currentUserObj dm of
        None \<Rightarrow> (False, dm)
      | Some u \<Rightarrow>
          let index = findIndex (\<lambda>t. id_tx t = transactionId) (transactions (financial u)) in
          if index = - 1 then (False, dm)
          else
            saveData h
              (update_currentUser
                 (\<lambda>u. u\<lparr>financial := (financial u)
                      \<lparr>transactions := splice1 (nat index) (transactions (financial u))\<rparr>\<rparr>)
                 dm))"

definition getTransactionsByPeriod :: "DataManager \<Rightarrow> string \<Rightarrow> Transaction list" where
  "getTransactionsByPeriod dm yearMonth =
     (case currentUserObj dm of
        None \<Rightarrow> []
      | Some u \<Rightarrow>
          let targetPeriod = trim yearMonth in
          filter (\<lambda>transaction. substring0 7 (date transaction) = targetPeriod)
            (transactions (financial u)))"

text \<open>
  \<open>Array.prototype.sort\<close> with a comparison function is stable, and with a consistent
  comparison its result is determined: the model is the stable insertion sort, where an
  element moves behind another only when the comparison is positive (\<open>NaN\<close> is not).
\<close>

fun sort_insert :: "('a \<Rightarrow> 'a \<Rightarrow> number) \<Rightarrow> 'a \<Rightarrow> 'a list \<Rightarrow> 'a list" where
  "sort_insert cmp x [] = [x]"
| "sort_insert cmp x (y # ys) =
     (if jsgt (cmp x y) (Fin 0) then y # sort_insert cmp x ys else x # y # ys)"

definition array_sort :: "('a \<Rightarrow> 'a \<Rightarrow> number) \<Rightarrow> 'a list \<Rightarrow> 'a list" where
  "array_sort cmp xs = foldr (sort_insert cmp) xs []"

text \<open>\<open>xs.reduce((sum, t) => sum + t.amount, 0)\<close>.\<close>

definition sum_amounts :: "Transaction list \<Rightarrow> number" where
  "sum_amounts ts = foldl (\<lambda>sum t. jsadd sum (amount t)) (Fin 0) ts"

text \<open>The \<open>forEach\<close> that fills \<open>expensesByCategory\<close>, one step and the loop.\<close>

definition add_expense :: "(string \<rightharpoonup> property) \<Rightarrow> Transaction \<Rightarrow> (string \<rightharpoonup> property)" where
  "add_expense m t =
     object_set m (category t) (or_zero_plus (object_get m (category t)) (amount t))"

text \<open>The loop starts from \<open>{}\<close>: no own property.\<close>

definition fold_expenses :: "Transaction list \<Rightarrow> (string \<rightharpoonup> property)" where
  "fold_expenses ts = foldl add_expense Map.empty ts"

text \<open>
  \<open>getTime\<close> is the host's \<open>new Date(s).getTime()\<close>: the time value of a date
  string, \<open>NaN\<close> for a string the host cannot parse.
\<close>

definition getFinancialSummary ::
  "(string \<Rightarrow> number) \<Rightarrow> DataManager \<Rightarrow> string \<Rightarrow> Summary option" where
  "getFinancialSummary getTime dm yearMonth =
     (case currentUserObj dm of
        None \<Rightarrow> None
      | Some _ \<Rightarrow>
          let txs = getTransactionsByPeriod dm yearMonth;
              mi = getMonthlyIncome dm yearMonth;
              periodIncome = sum_amounts (filter (\<lambda>t. type_tx t = ''income'') txs);
              ti = jsadd mi periodIncome;
              te = sum_amounts (filter (\<lambda>t. type_tx t = ''expense'') txs);
              bal = jssub ti te;
              byCat = fold_expenses (filter (\<lambda>t. type_tx t = ''expense'') txs)
          in Some \<lparr>period = yearMonth, monthlyIncome = mi, totalIncome = ti,
                   totalExpenses = te, balance = bal, transactionCount = length txs,
                   expensesByCategory = byCat,
                   transactions_summary =
                     array_sort (\<lambda>a b. jssub (getTime (date b)) (getTime (date a))) txs\<rparr>)"

definition comparePeriods ::
  "(string \<Rightarrow> number) \<Rightarrow> DataManager \<Rightarrow> string \<Rightarrow> string \<Rightarrow> Comparison option" where
  "comparePeriods getTime dm p1 p2 =
     (case getFinancialSummary getTime dm p1 of
        None \<Rightarrow> None
      | Some summary1 \<Rightarrow>
          (case getFinancialSummary getTime dm p2 of
             None \<Rightarrow> None
           | Some summary2 \<Rightarrow>
               Some \<lparr>period1 = summary1, period2 = summary2,
                      comparison =
                        \<lparr>incomeChange = jssub (totalIncome summary2) (totalIncome summary1),
                         expenseChange = jssub (totalExpenses summary2) (totalExpenses summary1),
                         balanceChange = jssub (balance summary2) (balance summary1),
                         incomeChangePercent =
                           (if jsgt (totalIncome summary1) (Fin 0)
                            then jsmul (jsdiv (jssub (totalIncome summary2) (totalIncome summary1))
                                              (totalIncome summary1)) (Fin 100)
                            else Fin 0),
                         expenseChangePercent =
                           (if jsgt (totalExpenses summary1) (Fin 0)
                            then jsmul (jsdiv (jssub (totalExpenses summary2) (totalExpenses summary1))
                                              (totalExpenses summary1)) (Fin 100)
                            else Fin 0)\<rparr>\<rparr>))"

definition getCurrentUser :: "DataManager \<Rightarrow> UserData option" where
  "getCurrentUser dm = currentUserObj dm"

definition isLoggedIn :: "DataManager \<Rightarrow> bool" where
  "isLoggedIn dm = (currentUser dm \<noteq> None)"

definition getCategories :: "DataManager \<Rightarrow> string list" where
  "getCategories dm =
     (case currentUserObj dm of None \<Rightarrow> [] | Some u \<Rightarrow> categories (financial u))"

definition addCategory :: "Host \<Rightarrow> string \<Rightarrow> DataManager \<Rightarrow> bool \<times> DataManager" where
  "addCategory h categoryName dm =
     (case currentUserObj dm of
        None \<Rightarrow> (False, dm)
      | Some u \<Rightarrow>
          if trim categoryName = [] then (False, dm)
          else if categoryName \<notin> set (categories (financial u)) then
            saveData h
              (update_currentUser
                 (\<lambda>u. u\<lparr>financial := (financial u)
                      \<lparr>categories := categories (financial u) @ [categoryName]\<rparr>\<rparr>)
                 dm)
          else (False, dm))"

section \<open>The operations of DataManager.js that differ\<close>

text \<open>
  \<open>DataManager.js\<close> has the same \<open>registerUser\<close>, \<open>addTransaction\<close>,
  \<open>removeTransaction\<close>, \<open>getMonthlyIncome\<close> and \<open>comparePeriods\<close>. Its
  \<open>setMonthlyIncome\<close> takes any value and stores \<open>parseFloat(amount) || 0\<close>, its
  period filter is \<open>startsWith\<close> on the untrimmed key, and its summary adds the
  fixed income last and returns the filtered list as it is.
\<close>

definition setMonthlyIncome_js :: "Host \<Rightarrow> string \<Rightarrow> jsval \<Rightarrow> DataManager \<Rightarrow> bool \<times> DataManager" where
  "setMonthlyIncome_js h yearMonth a dm =
     (case currentUserObj dm of
        None \<Rightarrow> (False, dm)
      | Some _ \<Rightarrow>
          saveData h
            (update_currentUser
               (\<lambda>u. u\<lparr>financial := (financial u)
                    \<lparr>monthlyIncomes :=
                       (monthlyIncomes (financial u))(yearMonth \<mapsto> or_zero (parseFloat_val a))\<rparr>\<rparr>)
               dm))"

definition getTransactionsByPeriod_js :: "DataManager \<Rightarrow> string \<Rightarrow> Transaction list" where
  "getTransactionsByPeriod_js dm yearMonth =
     (case currentUserObj dm of
        None \<Rightarrow> []
      | Some u \<Rightarrow>
          filter (\<lambda>transaction. startsWith (date transaction) yearMonth)
            (transactions (financial u)))"

definition getFinancialSummary_js :: "DataManager \<Rightarrow> string \<Rightarrow> Summary option" where
  "getFinancialSummary_js dm yearMonth =
     (case currentUserObj dm of
        None \<Rightarrow> None
      | Some _ \<Rightarrow>
          let txs = getTransactionsByPeriod_js dm yearMonth;
              mi = getMonthlyIncome dm yearMonth;
              ti = jsadd (sum_amounts (filter (\<lambda>t. type_tx t = ''income'') txs)) mi;
              te = sum_amounts (filter (\<lambda>t. type_tx t = ''expense'') txs);
              bal = jssub ti te;
              byCat = fold_expenses (filter (\<lambda>t. type_tx t = ''expense'') txs)
          in Some \<lparr>period = yearMonth, monthlyIncome = mi, totalIncome = ti,
                   totalExpenses = te, balance = bal, transactionCount = length txs,
                   expensesByCategory = byCat, transactions_summary = txs\<rparr>)"

section \<open>Views of the state used in the statements\<close>

text \<open>The transaction sequence of the current account, as stored.\<close>

definition stored_transactions :: "DataManager \<Rightarrow> Transaction list" where
  "stored_transactions dm =
     (case currentUserObj dm of None \<Rightarrow> [] | Some u \<Rightarrow> transactions (financial u))"

text \<open>
  The reference \<open>this.currentUser\<close> always points to an object of
  \<open>this.data.users\<close>: the constructors establish it and every operation keeps it.
\<close>

definition session_ok :: "DataManager \<Rightarrow> bool" where
  "session_ok dm = (case currentUser dm of None \<Rightarrow> True | Some r \<Rightarrow> users (data dm) r \<noteq> None)"

text \<open>The record \<open>addTransaction\<close> builds from its argument and the host's answers.\<close>

definition new_transaction :: "Host \<Rightarrow> TransactionInput \<Rightarrow> Transaction" where
  "new_transaction h d =
     \<lparr>id_tx = generateTransactionId h,
      description = description_in d,
      amount = parseFloat_val (amount_in d),
      type_tx = type_in d,
      category = or_default (category_in d) ''Outros'',
      date = or_default (date_in d) (split_T_first (isoDate h)),
      createdAt_tx = isoCreatedAt h\<rparr>"

text \<open>The two writes to the current account: \<open>unshift\<close> and the income assignment.\<close>

definition push_front :: "Transaction \<Rightarrow> UserData \<Rightarrow> UserData" where
  "push_front t u = u\<lparr>financial := (financial u)\<lparr>transactions := t # transactions (financial u)\<rparr>\<rparr>"

definition set_income :: "string \<Rightarrow> number \<Rightarrow> UserData \<Rightarrow> UserData" where
  "set_income p v u =
     u\<lparr>financial := (financial u)\<lparr>monthlyIncomes := (monthlyIncomes (financial u))(p \<mapsto> v)\<rparr>\<rparr>"

section \<open>A worked scenario\<close>

text \<open>
  An account is registered for \<open>a@b.com\<close>, the fixed income of \<open>2024-01\<close> is set to
  \<open>5000\<close>, and two transactions are added: groceries (an expense of \<open>200\<close>) and
  freelance work (an income of \<open>300\<close>). The host always accepts the write.
\<close>

definition example_host :: Host where
  "example_host =
     \<lparr>dateNow = 1000, randomString = ''0.abc'', isoDate = ''2024-03-05T10:00:00.000Z'',
      isoCreatedAt = ''2024-03-05T10:00:00.001Z'', isoLastLogin = ''2024-03-05T10:00:00.002Z'',
      setItemOk = True\<rparr>"

definition later_host :: Host where
  "later_host = example_host\<lparr>dateNow := 1001\<rparr>"

definition example_user :: UserInput where
  "example_user = \<lparr>name_in = ''Ana'', email_in = ''a@b.com''\<rparr>"

definition example_account :: UserData where
  "example_account = createUserStructure example_host ''YUBiLmNvbQ'' example_user"

definition groceries :: TransactionInput where
  "groceries = \<lparr>description_in = Some ''Groceries'', amount_in = JString ''200'',
                 type_in = ''expense'', category_in = Some ''Food'', date_in = Some ''2024-01-15''\<rparr>"

definition freelance :: TransactionInput where
  "freelance = \<lparr>description_in = Some ''Freelance'', amount_in = JString ''300'',
                 type_in = ''income'', category_in = None, date_in = Some ''2024-01-20''\<rparr>"

definition registered :: DataManager where
  "registered = snd (registerUser example_host example_user (constructor None))"

definition with_income :: DataManager where
  "with_income = snd (setMonthlyIncome example_host ''2024-01'' (Fin 5000) registered)"

definition with_groceries :: DataManager where
  "with_groceries = snd (addTransaction example_host groceries with_income)"

definition scenario :: DataManager where
  "scenario = snd (addTransaction later_host freelance with_groceries)"

text \<open>A host clock for the three days the examples use (milliseconds since the epoch, UTC).\<close>

definition example_getTime :: "string \<Rightarrow> number" where
  "example_getTime s =
     (if s = ''2024-01-10'' then Fin 1704844800000
      else if s = ''2024-01-15'' then Fin 1705276800000
      else if s = ''2024-01-20'' then Fin 1705708800000
      else NaN)"

section \<open>Notions the statements compare the code with\<close>

text \<open>A period key of the form \<open>YYYY-MM\<close>: four digits, a hyphen, two digits.\<close>

fun is_period_key :: "string \<Rightarrow> bool" where
  "is_period_key [a, b, c, d, e, f, g] =
     (is_digit a \<and> is_digit b \<and> is_digit c \<and> is_digit d \<and> e = CHR ''-'' \<and>
      is_digit f \<and> is_digit g)"
| "is_period_key _ = False"

text \<open>The fixed income stored for a period in the current account, if any.\<close>

definition stored_income :: "DataManager \<Rightarrow> string \<Rightarrow> number option" where
  "stored_income dm p =
     (case currentUserObj dm of None \<Rightarrow> None | Some u \<Rightarrow> monthlyIncomes (financial u) p)"


text \<open>The income and the expense transactions of a list, and those of one category.\<close>

definition incomes :: "Transaction list \<Rightarrow> Transaction list" where
  "incomes ts = filter (\<lambda>t. type_tx t = ''income'') ts"

definition expenses :: "Transaction list \<Rightarrow> Transaction list" where
  "expenses ts = filter (\<lambda>t. type_tx t = ''expense'') ts"


section \<open>Further example inputs\<close>

text \<open>An argument with no description and an amount that is not a number.\<close>

definition unvalidated :: TransactionInput where
  "unvalidated = \<lparr>description_in = None, amount_in = JString ''abc'',
                   type_in = ''expense'', category_in = Some ''Food'', date_in = Some ''2024-01-15''\<rparr>"

text \<open>An expense of \<open>5\<close> in the same category and month.\<close>

definition snack :: TransactionInput where
  "snack = \<lparr>description_in = Some ''Snack'', amount_in = JString ''5'',
             type_in = ''expense'', category_in = Some ''Food'', date_in = Some ''2024-01-10''\<rparr>"


text \<open>Freelance work of the 20th is recorded first, the snack of the 10th second.\<close>

definition date_ledger :: DataManager where
  "date_ledger =
     snd (addTransaction later_host snack (snd (addTransaction example_host freelance registered)))"




section \<open>Basic facts\<close>

lemma currentUserObj_no_session: "currentUser dm = None \<Longrightarrow> currentUserObj dm = None"
  by (simp add: currentUserObj_def)

lemma currentUserObj_update:
  "currentUserObj dm = Some u \<Longrightarrow> currentUserObj (update_currentUser f dm) = Some (f u)"
  by (auto simp: currentUserObj_def update_currentUser_def split: option.splits)

lemma currentUser_update [simp]: "currentUser (update_currentUser f dm) = currentUser dm"
  by (simp add: update_currentUser_def split: option.splits)

lemma currentUserObj_saveData [simp]: "currentUserObj (snd (saveData h dm)) = currentUserObj dm"
  by (simp add: saveData_def currentUserObj_def split: option.splits)

lemma data_saveData [simp]: "data (snd (saveData h dm)) = data dm"
  by (simp add: saveData_def)

lemma currentUser_saveData [simp]: "currentUser (snd (saveData h dm)) = currentUser dm"
  by (simp add: saveData_def)

lemma localStorage_saveData:
  "localStorage (snd (saveData h dm)) = (if setItemOk h then Some (data dm) else localStorage dm)"
  by (simp add: saveData_def)

lemma saveData_eq: "saveData h dm = (setItemOk h, snd (saveData h dm))"
  by (simp add: saveData_def)

section \<open>Accessors without a session\<close>

text \<open>
  Claim C9. When no account is active, the read accessors return their defaults and none
  fails: \<open>getMonthlyIncome\<close> gives \<open>0\<close>, \<open>getCategories\<close> and
  \<open>getTransactionsByPeriod\<close> give the empty list, \<open>getFinancialSummary\<close> and
  \<open>comparePeriods\<close> give \<open>null\<close>; the two accessors of \<open>DataManager.js\<close> that
  differ do the same.
\<close>

theorem no_session_defaults:
  assumes "currentUser dm = None"
  shows "getMonthlyIncome dm p = Fin 0 \<and> getCategories dm = [] \<and>
         getTransactionsByPeriod dm p = [] \<and> getFinancialSummary gt dm p = None \<and>
         comparePeriods gt dm p q = None \<and>
         getTransactionsByPeriod_js dm p = [] \<and> getFinancialSummary_js dm p = None"
proof -
  have n: "currentUserObj dm = None"
    using assms by (rule currentUserObj_no_session)
  have s: "getFinancialSummary gt dm p = None"
    by (simp add: getFinancialSummary_def n)
  show ?thesis
    by (simp add: n s getMonthlyIncome_def getCategories_def getTransactionsByPeriod_def
        comparePeriods_def getTransactionsByPeriod_js_def getFinancialSummary_js_def)
qed

theorem no_session_defaults_witness:
  "currentUser (constructor None) = None \<and>
   getMonthlyIncome (constructor None) ''2024-01'' = Fin 0 \<and>
   getCategories (constructor None) = [] \<and>
   getTransactionsByPeriod (constructor None) ''2024-01'' = [] \<and>
   getFinancialSummary (\<lambda>s. NaN) (constructor None) ''2024-01'' = None \<and>
   comparePeriods (\<lambda>s. NaN) (constructor None) ''2024-01'' ''2024-02'' = None"
proof -
  have c: "currentUser (constructor None) = None"
    by (simp add: constructor_def loadData_def emptyData_def)
  show ?thesis
    using c no_session_defaults [OF c, of "''2024-01''" "\<lambda>s. NaN" "''2024-02''"] by simp
qed

lemma findIndex_ge: "- 1 \<le> findIndex P xs"
  by (induction xs) (auto simp: Let_def)

lemma findIndex_absent: "(findIndex P xs = - 1) = (\<forall>x\<in>set xs. \<not> P x)"
proof (induction xs)
  case Nil
  show ?case by simp
next
  case (Cons x xs)
  have "findIndex P xs + 1 \<noteq> - 1"
    using findIndex_ge [of P xs] by arith
  with Cons show ?case by (auto simp: Let_def)
qed

lemma findIndex_first:
  "\<forall>x\<in>set pre. \<not> P x \<Longrightarrow> P t \<Longrightarrow> findIndex P (pre @ t # post) = int (length pre)"
  by (induction pre) (auto simp: Let_def)

lemma splice1_middle: "splice1 (length pre) (pre @ t # post) = pre @ post"
  by (simp add: splice1_def)

lemma stored_transactions_saveData [simp]:
  "stored_transactions (snd (saveData h dm)) = stored_transactions dm"
  by (simp add: stored_transactions_def)

lemma stored_transactions_update:
  "currentUserObj dm = Some u \<Longrightarrow>
   stored_transactions (update_currentUser f dm) = transactions (financial (f u))"
  by (simp add: stored_transactions_def currentUserObj_update)

lemma addTransaction_active:
  assumes "currentUserObj dm = Some u"
  shows "addTransaction h d dm =
           (if setItemOk h then Some (new_transaction h d) else None,
            snd (saveData h (update_currentUser (push_front (new_transaction h d)) dm)))"
proof -
  have "push_front (new_transaction h d) =
          (\<lambda>u. u\<lparr>financial := (financial u)
               \<lparr>transactions := new_transaction h d # transactions (financial u)\<rparr>\<rparr>)"
    by (rule ext) (simp add: push_front_def)
  then show ?thesis
    using assms
    by (simp add: addTransaction_def Let_def new_transaction_def saveData_def)
qed

lemma addTransaction_no_session:
  "currentUserObj dm = None \<Longrightarrow> addTransaction h d dm = (None, dm)"
  by (simp add: addTransaction_def)

lemma addTransaction_stored:
  assumes "currentUserObj dm = Some u"
  shows "stored_transactions (snd (addTransaction h d dm)) = new_transaction h d # stored_transactions dm"
proof -
  have "stored_transactions (snd (addTransaction h d dm)) =
          transactions (financial (push_front (new_transaction h d) u))"
    by (simp add: addTransaction_active [OF assms] stored_transactions_update [OF assms])
  also have "\<dots> = new_transaction h d # stored_transactions dm"
    by (simp add: push_front_def stored_transactions_def assms)
  finally show ?thesis .
qed

lemma addTransaction_success:
  assumes "addTransaction h d dm = (Some t, dm')"
  shows "stored_transactions dm' = t # stored_transactions dm"
proof (cases "currentUserObj dm")
  case None
  with assms show ?thesis by (simp add: addTransaction_no_session)
next
  case (Some u)
  from assms have t: "t = new_transaction h d"
    by (simp add: addTransaction_active [OF Some] split: if_splits)
  from assms have "dm' = snd (addTransaction h d dm)" by simp
  with t show ?thesis by (simp add: addTransaction_stored [OF Some])
qed

lemma setMonthlyIncome_active:
  assumes "currentUserObj dm = Some u"
  shows "setMonthlyIncome h p a dm =
           (setItemOk h, snd (saveData h (update_currentUser (set_income p (or_zero a)) dm)))"
proof -
  have "set_income p (or_zero a) =
          (\<lambda>u. u\<lparr>financial := (financial u)
               \<lparr>monthlyIncomes := (monthlyIncomes (financial u))(p \<mapsto> or_zero a)\<rparr>\<rparr>)"
    by (rule ext) (simp add: set_income_def)
  then show ?thesis
    using assms by (simp add: setMonthlyIncome_def saveData_def)
qed

lemma getFinancialSummary_Some:
  "(\<exists>s. getFinancialSummary gt dm p = Some s) = (currentUserObj dm \<noteq> None)"
  by (auto simp: getFinancialSummary_def Let_def split: option.splits)

lemma getTransactionsByPeriod_stored:
  "getTransactionsByPeriod dm p =
     filter (\<lambda>t. take 7 (date t) = trim p) (stored_transactions dm)"
  by (simp add: getTransactionsByPeriod_def stored_transactions_def substring0_def
      split: option.splits)

section \<open>The worked scenario, evaluated\<close>

lemma example_user_id: "generateUserId ''a@b.com'' = ''YUBiLmNvbQ''"
  by code_simp

lemma parse_200: "parseFloat ''200'' = Fin 200" by code_simp
lemma parse_300: "parseFloat ''300'' = Fin 300" by code_simp
lemma id_1000: "toString36 1000 = ''rs''" by code_simp
lemma id_1001: "toString36 1001 = ''rt''" by code_simp

lemma registered_account: "currentUserObj registered = Some example_account"
  by (simp add: registered_def registerUser_def example_user_id example_user_def constructor_def
      loadData_def emptyData_def saveData_def example_host_def currentUserObj_def Let_def
      example_account_def)

lemma with_income_account:
  "currentUserObj with_income = Some (set_income ''2024-01'' (Fin 5000) example_account)"
  by (simp add: with_income_def setMonthlyIncome_active [OF registered_account]
      currentUserObj_update [OF registered_account] or_zero_def)

lemma new_groceries:
  "new_transaction example_host groceries =
     \<lparr>id_tx = ''rsabc'', description = Some ''Groceries'', amount = Fin 200,
      type_tx = ''expense'', category = ''Food'', date = ''2024-01-15'',
      createdAt_tx = ''2024-03-05T10:00:00.001Z''\<rparr>"
  by (simp add: new_transaction_def groceries_def example_host_def generateTransactionId_def
      id_1000 parse_200 or_default_def)

lemma new_freelance:
  "new_transaction later_host freelance =
     \<lparr>id_tx = ''rtabc'', description = Some ''Freelance'', amount = Fin 300,
      type_tx = ''income'', category = ''Outros'', date = ''2024-01-20'',
      createdAt_tx = ''2024-03-05T10:00:00.001Z''\<rparr>"
  by (simp add: new_transaction_def freelance_def later_host_def example_host_def
      generateTransactionId_def id_1001 parse_300 or_default_def)

lemma with_groceries_account:
  "currentUserObj with_groceries =
     Some (push_front (new_transaction example_host groceries)
             (set_income ''2024-01'' (Fin 5000) example_account))"
  by (simp add: with_groceries_def addTransaction_active [OF with_income_account]
      currentUserObj_update [OF with_income_account])

lemma scenario_account:
  "currentUserObj scenario =
     Some (push_front (new_transaction later_host freelance)
            (push_front (new_transaction example_host groceries)
              (set_income ''2024-01'' (Fin 5000) example_account)))"
  by (simp add: scenario_def addTransaction_active [OF with_groceries_account]
      currentUserObj_update [OF with_groceries_account])

lemma with_income_stored: "stored_transactions with_income = []"
  by (simp add: stored_transactions_def with_income_account set_income_def example_account_def
      createUserStructure_def)

lemma stored_scenario:
  "stored_transactions scenario =
     [new_transaction later_host freelance, new_transaction example_host groceries]"
  by (simp add: stored_transactions_def scenario_account push_front_def set_income_def
      example_account_def createUserStructure_def)

lemma trim_2023_12: "trim ''2023-12'' = ''2023-12''"
  by (simp add: trim_def is_js_space_def)

lemma trim_2024_01: "trim ''2024-01'' = ''2024-01''"
  by (simp add: trim_def is_js_space_def)

lemma scenario_2023_12: "getTransactionsByPeriod scenario ''2023-12'' = []"
  by (simp add: getTransactionsByPeriod_stored stored_scenario trim_2023_12 new_groceries new_freelance)

lemma scenario_2024_01:
  "getTransactionsByPeriod scenario ''2024-01'' =
     [new_transaction later_host freelance, new_transaction example_host groceries]"
  by (simp add: getTransactionsByPeriod_stored stored_scenario trim_2024_01 new_groceries new_freelance)

lemma scenario_income_2023_12: "getMonthlyIncome scenario ''2023-12'' = Fin 0"
  by (simp add: getMonthlyIncome_def scenario_account push_front_def set_income_def
      example_account_def createUserStructure_def lookup_or_zero_def)

lemma scenario_income_2024_01: "getMonthlyIncome scenario ''2024-01'' = Fin 5000"
  by (simp add: getMonthlyIncome_def scenario_account push_front_def set_income_def
      example_account_def createUserStructure_def lookup_or_zero_def or_zero_def)

lemma scenario_summary_2023_12:
  "getFinancialSummary example_getTime scenario ''2023-12'' =
     Some \<lparr>period = ''2023-12'', monthlyIncome = Fin 0, totalIncome = Fin 0,
            totalExpenses = Fin 0, balance = Fin 0, transactionCount = 0,
            expensesByCategory = Map.empty, transactions_summary = []\<rparr>"
  by (simp add: getFinancialSummary_def scenario_account scenario_2023_12 scenario_income_2023_12
      sum_amounts_def fold_expenses_def jssub_def array_sort_def Let_def)

section \<open>Insertion order\<close>

text \<open>
  Claim C5. With an active account, after \<open>addTransaction(A)\<close> returns its record and
  then \<open>addTransaction(B)\<close> returns its record, the stored sequence is the record of
  \<open>B\<close>, then the record of \<open>A\<close>, then the sequence as it was before: each successful
  call puts its record at the front and changes nothing else in the sequence.
\<close>

theorem addTransaction_inserts_at_front:
  assumes "currentUserObj dm = Some u"
    and "addTransaction hA a dm = (Some tA, dmA)"
    and "addTransaction hB b dmA = (Some tB, dmB)"
  shows "stored_transactions dmB = tB # tA # stored_transactions dm \<and>
         tA = new_transaction hA a \<and> tB = new_transaction hB b"
proof -
  have a: "tA = new_transaction hA a"
    using assms(1,2) by (simp add: addTransaction_active split: if_splits)
  have b: "tB = new_transaction hB b"
  proof (cases "currentUserObj dmA")
    case None
    with assms(3) show ?thesis by (simp add: addTransaction_no_session)
  next
    case (Some v)
    with assms(3) show ?thesis by (simp add: addTransaction_active split: if_splits)
  qed
  show ?thesis
    using assms(2,3) a b by (simp add: addTransaction_success)
qed

theorem addTransaction_inserts_at_front_witness:
  "addTransaction example_host groceries with_income =
     (Some (new_transaction example_host groceries), with_groceries) \<and>
   addTransaction later_host freelance with_groceries =
     (Some (new_transaction later_host freelance), scenario) \<and>
   stored_transactions scenario =
     [new_transaction later_host freelance, new_transaction example_host groceries]"
proof -
  have a: "addTransaction example_host groceries with_income =
             (Some (new_transaction example_host groceries), with_groceries)"
    by (simp add: with_groceries_def addTransaction_active [OF with_income_account] example_host_def)
  have b: "addTransaction later_host freelance with_groceries =
             (Some (new_transaction later_host freelance), scenario)"
    by (simp add: scenario_def addTransaction_active [OF with_groceries_account] later_host_def
        example_host_def)
  show ?thesis
    using a b addTransaction_inserts_at_front [OF with_income_account a b]
    by (simp add: with_income_stored)
qed

section \<open>Removal by identifier\<close>

text \<open>
  Claim C6. With an active account, \<open>removeTransaction(id)\<close> with an identifier that no
  stored transaction has returns \<open>false\<close> (it does not fail) and leaves the state, so
  the sequence, as it was. With an identifier that is present it removes that transaction
  (the first with the identifier) and nothing else, attempts the write and returns its
  outcome; after a successful write the stored blob is the current data.
\<close>

theorem removeTransaction_by_id:
  assumes "currentUserObj dm = Some u"
  shows "((\<forall>t\<in>set (stored_transactions dm). id_tx t \<noteq> tid) \<longrightarrow>
            removeTransaction h tid dm = (False, dm)) \<and>
         (stored_transactions dm = pre @ t # post \<and> id_tx t = tid \<and>
            (\<forall>x\<in>set pre. id_tx x \<noteq> tid) \<longrightarrow>
            fst (removeTransaction h tid dm) = setItemOk h \<and>
            stored_transactions (snd (removeTransaction h tid dm)) = pre @ post \<and>
            (setItemOk h \<longrightarrow>
               localStorage (snd (removeTransaction h tid dm)) =
                 Some (data (snd (removeTransaction h tid dm)))))"
proof (intro conjI impI)
  assume "\<forall>t\<in>set (stored_transactions dm). id_tx t \<noteq> tid"
  then have "findIndex (\<lambda>t. id_tx t = tid) (transactions (financial u)) = - 1"
    using assms by (simp add: findIndex_absent stored_transactions_def)
  then show "removeTransaction h tid dm = (False, dm)"
    using assms by (simp add: removeTransaction_def)
next
  assume p: "stored_transactions dm = pre @ t # post \<and> id_tx t = tid \<and>
             (\<forall>x\<in>set pre. id_tx x \<noteq> tid)"
  then have txs: "transactions (financial u) = pre @ t # post"
    using assms by (simp add: stored_transactions_def)
  have i: "findIndex (\<lambda>t. id_tx t = tid) (transactions (financial u)) = int (length pre)"
    using p by (simp add: txs findIndex_first)
  have r: "removeTransaction h tid dm =
             saveData h (update_currentUser
               (\<lambda>u. u\<lparr>financial := (financial u)
                    \<lparr>transactions := splice1 (length pre) (transactions (financial u))\<rparr>\<rparr>) dm)"
    using assms by (simp add: removeTransaction_def i)
  show "fst (removeTransaction h tid dm) = setItemOk h"
    by (simp add: r saveData_def)
  show "stored_transactions (snd (removeTransaction h tid dm)) = pre @ post"
    by (simp add: r stored_transactions_update [OF assms] txs splice1_middle)
  show "localStorage (snd (removeTransaction h tid dm)) =
          Some (data (snd (removeTransaction h tid dm)))" if "setItemOk h"
    using that by (simp add: r localStorage_saveData)
qed

theorem removeTransaction_by_id_witness:
  "removeTransaction example_host ''nonexistent'' scenario = (False, scenario) \<and>
   fst (removeTransaction example_host ''rsabc'' scenario) = True \<and>
   stored_transactions (snd (removeTransaction example_host ''rsabc'' scenario)) =
     [new_transaction later_host freelance] \<and>
   localStorage (snd (removeTransaction example_host ''rsabc'' scenario)) =
     Some (data (snd (removeTransaction example_host ''rsabc'' scenario)))"
proof -
  have s: "stored_transactions scenario =
             [new_transaction later_host freelance] @ new_transaction example_host groceries # []"
    by (simp add: stored_scenario)
  have ok: "setItemOk example_host" by (simp add: example_host_def)
  show ?thesis
    using removeTransaction_by_id [OF scenario_account, of "''nonexistent''" example_host
        "[]" "new_transaction example_host groceries" "[]"]
      removeTransaction_by_id [OF scenario_account, of "''rsabc''" example_host
        "[new_transaction later_host freelance]" "new_transaction example_host groceries" "[]"]
    by (simp add: stored_scenario new_groceries new_freelance ok)
qed

section \<open>Comparison with a zero baseline\<close>

text \<open>
  Claim C7. When the summary of the baseline period has \<open>totalIncome\<close> equal to
  \<open>0\<close>, \<open>comparePeriods\<close> returns a comparison whose \<open>incomeChangePercent\<close> is
  \<open>0\<close>, not \<open>NaN\<close> and not an infinity; likewise \<open>expenseChangePercent\<close> is
  \<open>0\<close> when the baseline \<open>totalExpenses\<close> is \<open>0\<close>.
\<close>

theorem comparePeriods_zero_baseline:
  assumes "getFinancialSummary gt dm p1 = Some s1"
  shows "\<exists>c. comparePeriods gt dm p1 p2 = Some c \<and>
           (totalIncome s1 = Fin 0 \<longrightarrow> incomeChangePercent (comparison c) = Fin 0) \<and>
           (totalExpenses s1 = Fin 0 \<longrightarrow> expenseChangePercent (comparison c) = Fin 0)"
proof -
  from assms have "currentUserObj dm \<noteq> None"
    using getFinancialSummary_Some [of gt dm p1] by auto
  then obtain s2 where s2: "getFinancialSummary gt dm p2 = Some s2"
    using getFinancialSummary_Some [of gt dm p2] by auto
  show ?thesis
    by (simp add: comparePeriods_def assms s2)
qed

theorem comparePeriods_zero_baseline_witness:
  "map_option totalIncome (getFinancialSummary example_getTime scenario ''2023-12'') = Some (Fin 0) \<and>
   map_option totalExpenses (getFinancialSummary example_getTime scenario ''2023-12'') = Some (Fin 0) \<and>
   map_option totalIncome (getFinancialSummary example_getTime scenario ''2024-01'') = Some (Fin 5300) \<and>
   map_option (\<lambda>c. incomeChangePercent (comparison c))
     (comparePeriods example_getTime scenario ''2023-12'' ''2024-01'') = Some (Fin 0) \<and>
   map_option (\<lambda>c. expenseChangePercent (comparison c))
     (comparePeriods example_getTime scenario ''2023-12'' ''2024-01'') = Some (Fin 0)"
proof -
  have i: "map_option totalIncome (getFinancialSummary example_getTime scenario ''2024-01'') = Some (Fin 5300)"
    by (simp add: getFinancialSummary_def scenario_account scenario_2024_01 scenario_income_2024_01
      sum_amounts_def new_groceries new_freelance Let_def)
  show ?thesis
    using comparePeriods_zero_baseline [OF scenario_summary_2023_12, of "''2024-01''"] i
    by (auto simp: scenario_summary_2023_12)
qed

section \<open>Registration opens the session\<close>

text \<open>
  Claim C10. When no account is stored under the identifier derived from the given email,
  a \<open>registerUser\<close> call that reports success has made the new account the current
  one: \<open>isLoggedIn()\<close> is true and \<open>getCurrentUser()\<close> is the account record just
  created, which is also the record the call returned.
\<close>

theorem registerUser_activates:
  assumes "users (data dm) (generateUserId (email_in ud)) = None"
    and "registerUser h ud dm = (Success u, dm')"
  shows "isLoggedIn dm' \<and> getCurrentUser dm' = Some u \<and>
         u = createUserStructure h (generateUserId (email_in ud)) ud \<and>
         currentUserId (data dm') = Some (generateUserId (email_in ud))"
  using assms
  by (auto simp: registerUser_def Let_def saveData_def isLoggedIn_def getCurrentUser_def
      currentUserObj_def split: if_splits)

theorem registerUser_activates_witness:
  "users (data (constructor None)) (generateUserId (email_in example_user)) = None \<and>
   registerUser example_host example_user (constructor None) = (Success example_account, registered) \<and>
   isLoggedIn registered \<and> getCurrentUser registered = Some example_account"
proof -
  have a: "users (data (constructor None)) (generateUserId (email_in example_user)) = None"
    by (simp add: constructor_def loadData_def emptyData_def)
  have b: "registerUser example_host example_user (constructor None) = (Success example_account, registered)"
    by (simp add: registered_def registerUser_def Let_def saveData_def example_host_def
        example_account_def example_user_def example_user_id constructor_def loadData_def
        emptyData_def)
  show ?thesis
    using a b registerUser_activates [OF a b] by simp
qed

section \<open>The period filter\<close>

lemma digit_not_space: "is_digit c \<Longrightarrow> \<not> is_js_space c"
  by (auto simp: is_digit_def is_js_space_def)

lemma trim_period_key: "is_period_key k \<Longrightarrow> trim k = k"
  by (erule is_period_key.elims) (simp_all add: trim_def digit_not_space)

lemma length_period_key: "is_period_key k \<Longrightarrow> length k = 7"
  by (erule is_period_key.elims) simp_all

text \<open>
  Claim C4. For a period key of the form \<open>YYYY-MM\<close> (seven characters) and any stored
  transaction list, the period filter returns exactly the transactions whose date begins
  with those seven characters, in stored order; for such a key the filter of
  \<open>DataManager.ts\<close> (\<open>substring(0, 7)\<close> compared with the trimmed key) and the
  filter of \<open>DataManager.js\<close> (\<open>startsWith\<close>) return the same list.
\<close>

theorem period_filter_ts_js:
  assumes "is_period_key k"
  shows "getTransactionsByPeriod dm k =
           filter (\<lambda>t. take 7 (date t) = k) (stored_transactions dm) \<and>
         getTransactionsByPeriod_js dm k = getTransactionsByPeriod dm k"
  by (simp add: getTransactionsByPeriod_stored trim_period_key [OF assms]
      getTransactionsByPeriod_js_def startsWith_def length_period_key [OF assms]
      stored_transactions_def split: option.splits)

theorem period_filter_ts_js_witness:
  "is_period_key ''2024-01'' \<and>
   getTransactionsByPeriod scenario ''2024-01'' =
     [new_transaction later_host freelance, new_transaction example_host groceries] \<and>
   getTransactionsByPeriod_js scenario ''2024-01'' =
     [new_transaction later_host freelance, new_transaction example_host groceries] \<and>
   getTransactionsByPeriod_js scenario ''2023-12'' = []"
proof -
  have k: "is_period_key ''2024-01''" by (simp add: is_digit_def)
  have k': "is_period_key ''2023-12''" by (simp add: is_digit_def)
  show ?thesis
    using k period_filter_ts_js [OF k, of scenario] period_filter_ts_js [OF k', of scenario]
    by (simp add: stored_scenario new_groceries new_freelance)
qed

text \<open>Outside that form the two filters differ: a four-character key matches nothing in
  \<open>DataManager.ts\<close> and the whole year in \<open>DataManager.js\<close>.\<close>

lemma period_filter_short_key:
  "getTransactionsByPeriod scenario ''2024'' = [] \<and>
   getTransactionsByPeriod_js scenario ''2024'' =
     [new_transaction later_host freelance, new_transaction example_host groceries]"
  by (simp add: getTransactionsByPeriod_stored getTransactionsByPeriod_js_def scenario_account
      startsWith_def trim_def is_js_space_def push_front_def set_income_def example_account_def
      createUserStructure_def new_groceries new_freelance stored_scenario)

section \<open>What addTransaction accepts\<close>

lemma example_host_ok: "setItemOk example_host"
  by (simp add: example_host_def)

lemma later_host_ok: "setItemOk later_host"
  by (simp add: later_host_def example_host_def)

lemma parse_abc: "parseFloat ''abc'' = NaN" by code_simp
lemma parse_5: "parseFloat ''5'' = Fin 5" by code_simp
lemma parse_minus_5: "parseFloat ''-5'' = Fin (- 5)" by code_simp
lemma parse_Infinity: "parseFloat ''Infinity'' = PosInf" by code_simp
lemma parse_undefined: "parseFloat ''undefined'' = NaN" by code_simp

lemma new_unvalidated:
  "new_transaction example_host unvalidated =
     \<lparr>id_tx = ''rsabc'', description = None, amount = NaN,
      type_tx = ''expense'', category = ''Food'', date = ''2024-01-15'',
      createdAt_tx = ''2024-03-05T10:00:00.001Z''\<rparr>"
  by (simp add: new_transaction_def unvalidated_def example_host_def generateTransactionId_def
      id_1000 parse_abc or_default_def)

lemma registered_stored: "stored_transactions registered = []"
  by (simp add: stored_transactions_def registered_account example_account_def
      createUserStructure_def)

text \<open>
  Claim C1 says that \<open>addTransaction\<close> validates the presence of description and
  amount, and that an amount that is not a number is rejected or stored as \<open>0\<close>, never
  as \<open>NaN\<close>. The call below has no description and the amount \<open>abc\<close>: it succeeds,
  and the stored record has no description and the amount \<open>NaN\<close>.
\<close>

theorem addTransaction_stores_NaN:
  "fst (addTransaction example_host unvalidated registered) =
     Some \<lparr>id_tx = ''rsabc'', description = None, amount = NaN,
            type_tx = ''expense'', category = ''Food'', date = ''2024-01-15'',
            createdAt_tx = ''2024-03-05T10:00:00.001Z''\<rparr> \<and>
   map amount (stored_transactions (snd (addTransaction example_host unvalidated registered))) = [NaN] \<and>
   map description (stored_transactions (snd (addTransaction example_host unvalidated registered))) = [None]"
proof -
  have "fst (addTransaction example_host unvalidated registered) =
          Some (new_transaction example_host unvalidated)"
    by (simp add: addTransaction_active [OF registered_account] example_host_ok)
  moreover have "stored_transactions (snd (addTransaction example_host unvalidated registered)) =
          [new_transaction example_host unvalidated]"
    by (simp add: addTransaction_stored [OF registered_account] registered_stored)
  ultimately show ?thesis
    by (simp add: new_unvalidated)
qed

text \<open>
  Claim C1, amended. \<open>addTransaction\<close> does not validate its argument (the form that
  calls it checks that description and amount are filled in). With an active account
  every call builds a record, with the description as given, absent or not, and with the
  number \<open>parseFloat\<close> reads from the amount whenever it reads one; it puts the record
  at the front of the stored sequence and returns it exactly when the write succeeds.
\<close>

theorem addTransaction_unvalidated:
  assumes "currentUserObj dm = Some u"
  shows "\<exists>t. fst (addTransaction h d dm) = (if setItemOk h then Some t else None) \<and>
             stored_transactions (snd (addTransaction h d dm)) = t # stored_transactions dm \<and>
             description t = description_in d \<and>
             (parseFloat_val (amount_in d) \<noteq> NaN \<longrightarrow> amount t = parseFloat_val (amount_in d))"
proof (intro exI conjI)
  show "fst (addTransaction h d dm) = (if setItemOk h then Some (new_transaction h d) else None)"
    by (simp add: addTransaction_active [OF assms])
  show "stored_transactions (snd (addTransaction h d dm)) = new_transaction h d # stored_transactions dm"
    by (rule addTransaction_stored [OF assms])
  show "description (new_transaction h d) = description_in d"
    by (simp add: new_transaction_def)
  show "parseFloat_val (amount_in d) \<noteq> NaN \<longrightarrow>
        amount (new_transaction h d) = parseFloat_val (amount_in d)"
    by (simp add: new_transaction_def)
qed

theorem addTransaction_unvalidated_witness:
  "currentUserObj with_income \<noteq> None \<and>
   parseFloat_val (amount_in groceries) = Fin 200 \<and>
   fst (addTransaction example_host groceries with_income) \<noteq> None \<and>
   map amount (stored_transactions with_groceries) = [Fin 200] \<and>
   map description (stored_transactions with_groceries) = [Some ''Groceries'']"
proof -
  have p: "parseFloat_val (amount_in groceries) = Fin 200"
    by (simp add: groceries_def parse_200)
  have d: "description_in groceries = Some ''Groceries''"
    by (simp add: groceries_def)
  show ?thesis
    using addTransaction_unvalidated [OF with_income_account, of example_host groceries] p d
    by (auto simp: with_income_account with_income_stored example_host_ok with_groceries_def)
qed

section \<open>What setMonthlyIncome stores\<close>

lemma stored_income_update:
  "currentUserObj dm = Some u \<Longrightarrow>
   stored_income (snd (saveData h (update_currentUser (set_income p v) dm))) q =
     (if q = p then Some v else stored_income dm q)"
  by (simp add: stored_income_def currentUserObj_update set_income_def)

lemma or_zero_alt: "or_zero a = (if a = NaN then Fin 0 else a)"
  by (simp add: or_zero_def)

lemma setMonthlyIncome_js_active:
  assumes "currentUserObj dm = Some u"
  shows "setMonthlyIncome_js h p v dm =
           (setItemOk h, snd (saveData h (update_currentUser (set_income p (or_zero (parseFloat_val v))) dm)))"
proof -
  have "set_income p (or_zero (parseFloat_val v)) =
          (\<lambda>u. u\<lparr>financial := (financial u)
               \<lparr>monthlyIncomes := (monthlyIncomes (financial u))(p \<mapsto> or_zero (parseFloat_val v))\<rparr>\<rparr>)"
    by (rule ext) (simp add: set_income_def)
  then show ?thesis
    using assms by (simp add: setMonthlyIncome_js_def saveData_def)
qed

lemma setMonthlyIncome_no_session:
  "currentUserObj dm = None \<Longrightarrow>
   setMonthlyIncome h p a dm = (False, dm) \<and> setMonthlyIncome_js h p v dm = (False, dm)"
  by (simp add: setMonthlyIncome_def setMonthlyIncome_js_def)

text \<open>
  Claim C3 says that \<open>setMonthlyIncome\<close> stores a finite non-negative amount and
  coerces every invalid input, negative and non-finite ones included, to \<open>0\<close>. A
  negative amount and an infinite one are stored as they are, in both files.
\<close>

theorem setMonthlyIncome_keeps_negative:
  "stored_income (snd (setMonthlyIncome example_host ''2024-01'' (Fin (- 5)) registered)) ''2024-01'' =
     Some (Fin (- 5)) \<and>
   stored_income (snd (setMonthlyIncome example_host ''2024-01'' PosInf registered)) ''2024-01'' =
     Some PosInf \<and>
   stored_income (snd (setMonthlyIncome_js example_host ''2024-01'' (JString ''-5'') registered)) ''2024-01'' =
     Some (Fin (- 5)) \<and>
   stored_income (snd (setMonthlyIncome_js example_host ''2024-01'' (JString ''Infinity'') registered)) ''2024-01'' =
     Some PosInf"
  by (simp add: setMonthlyIncome_active [OF registered_account]
      setMonthlyIncome_js_active [OF registered_account]
      stored_income_update [OF registered_account] or_zero_alt parse_minus_5 parse_Infinity)

text \<open>
  Claim C3, amended. With an active account, \<open>setMonthlyIncome(period, amount)\<close>
  stores under the period key the number \<open>parseFloat\<close> reads from the amount, with
  \<open>NaN\<close> (an unparsable amount) replaced by \<open>0\<close> and every other number, negative
  or infinite, kept; it returns the outcome of the persistence step, and after a
  successful write the stored blob is the current data.
\<close>

theorem setMonthlyIncome_stores:
  assumes "currentUserObj dm = Some u"
  shows "fst (setMonthlyIncome h p a dm) = setItemOk h \<and>
         stored_income (snd (setMonthlyIncome h p a dm)) p = Some (if a = NaN then Fin 0 else a) \<and>
         (setItemOk h \<longrightarrow>
            localStorage (snd (setMonthlyIncome h p a dm)) = Some (data (snd (setMonthlyIncome h p a dm)))) \<and>
         fst (setMonthlyIncome_js h p v dm) = setItemOk h \<and>
         stored_income (snd (setMonthlyIncome_js h p v dm)) p =
           Some (if parseFloat_val v = NaN then Fin 0 else parseFloat_val v) \<and>
         (setItemOk h \<longrightarrow>
            localStorage (snd (setMonthlyIncome_js h p v dm)) =
              Some (data (snd (setMonthlyIncome_js h p v dm))))"
  by (simp add: setMonthlyIncome_active [OF assms] setMonthlyIncome_js_active [OF assms]
      stored_income_update [OF assms] or_zero_alt localStorage_saveData)

theorem setMonthlyIncome_stores_witness:
  "currentUserObj registered \<noteq> None \<and>
   fst (setMonthlyIncome example_host ''2024-01'' (Fin 5000) registered) = True \<and>
   stored_income with_income ''2024-01'' = Some (Fin 5000) \<and>
   stored_income (snd (setMonthlyIncome example_host ''2024-01'' NaN registered)) ''2024-01'' = Some (Fin 0) \<and>
   stored_income (snd (setMonthlyIncome_js example_host ''2024-01'' (JString ''abc'') registered)) ''2024-01'' =
     Some (Fin 0) \<and>
   stored_income (snd (setMonthlyIncome_js example_host ''2024-01'' JUndefined registered)) ''2024-01'' =
     Some (Fin 0) \<and>
   localStorage with_income = Some (data with_income)"
  using setMonthlyIncome_stores [OF registered_account, of example_host "''2024-01''" "Fin 5000" "JString ''abc''"]
    setMonthlyIncome_stores [OF registered_account, of example_host "''2024-01''" NaN JUndefined]
  by (simp add: registered_account with_income_def example_host_ok parse_abc parse_undefined)

section \<open>The session reference\<close>

text \<open>
  The constructors start with a reference that points into \<open>users\<close> (or with none),
  and every operation keeps it so: in every state the program reaches, \<open>this.currentUser\<close>
  is \<open>null\<close> exactly when no current account object exists.
\<close>

lemma session_ok_active:
  "session_ok dm \<Longrightarrow> (currentUserObj dm = None) = (currentUser dm = None)"
  by (auto simp: session_ok_def currentUserObj_def split: option.splits)

lemma session_ok_constructor: "session_ok (constructor stored) \<and> session_ok (constructor_js stored)"
  by (simp add: session_ok_def constructor_def constructor_js_def Let_def split: option.splits)

lemma session_ok_saveData: "session_ok (snd (saveData h dm)) = session_ok dm"
  by (simp add: session_ok_def split: option.splits)

lemma session_ok_update: "session_ok dm \<Longrightarrow> session_ok (update_currentUser f dm)"
  by (auto simp: session_ok_def update_currentUser_def split: option.splits)

lemma session_ok_registerUser: "session_ok dm \<Longrightarrow> session_ok (snd (registerUser h ud dm))"
  by (auto simp: registerUser_def Let_def saveData_def session_ok_def split: option.splits)

lemma session_ok_loginUser: "session_ok dm \<Longrightarrow> session_ok (snd (loginUser h e pw dm))"
  by (auto simp: loginUser_def Let_def saveData_def session_ok_def split: option.splits)

lemma session_ok_logout: "session_ok (logout h dm)"
  by (simp add: logout_def saveData_def session_ok_def)

lemma session_ok_setMonthlyIncome:
  "session_ok dm \<Longrightarrow> session_ok (snd (setMonthlyIncome h p a dm))"
  by (simp add: setMonthlyIncome_def session_ok_saveData session_ok_update split: option.splits)

lemma session_ok_addTransaction:
  "session_ok dm \<Longrightarrow> session_ok (snd (addTransaction h d dm))"
proof (cases "currentUserObj dm")
  case None
  assume "session_ok dm"
  with None show ?thesis by (simp add: addTransaction_no_session)
next
  case (Some u)
  assume "session_ok dm"
  then show ?thesis
    by (simp add: addTransaction_active [OF Some] session_ok_saveData session_ok_update)
qed

lemma session_ok_removeTransaction:
  "session_ok dm \<Longrightarrow> session_ok (snd (removeTransaction h tid dm))"
  by (simp add: removeTransaction_def Let_def session_ok_saveData session_ok_update
      split: option.splits)

lemma session_ok_addCategory:
  "session_ok dm \<Longrightarrow> session_ok (snd (addCategory h c dm))"
  by (simp add: addCategory_def session_ok_saveData session_ok_update split: option.splits)

section \<open>The summary of a period\<close>


lemma getFinancialSummary_active:
  assumes "currentUserObj dm = Some u"
  shows "getFinancialSummary gt dm p =
     Some \<lparr>period = p,
            monthlyIncome = getMonthlyIncome dm p,
            totalIncome = jsadd (getMonthlyIncome dm p)
                            (sum_amounts (incomes (getTransactionsByPeriod dm p))),
            totalExpenses = sum_amounts (expenses (getTransactionsByPeriod dm p)),
            balance = jssub (jsadd (getMonthlyIncome dm p)
                               (sum_amounts (incomes (getTransactionsByPeriod dm p))))
                            (sum_amounts (expenses (getTransactionsByPeriod dm p))),
            transactionCount = length (getTransactionsByPeriod dm p),
            expensesByCategory = fold_expenses (expenses (getTransactionsByPeriod dm p)),
            transactions_summary =
              array_sort (\<lambda>a b. jssub (gt (date b)) (gt (date a))) (getTransactionsByPeriod dm p)\<rparr>"
  using assms by (simp add: getFinancialSummary_def Let_def incomes_def expenses_def)










lemma new_snack_later:
  "new_transaction later_host snack =
     \<lparr>id_tx = ''rtabc'', description = Some ''Snack'', amount = Fin 5,
      type_tx = ''expense'', category = ''Food'', date = ''2024-01-10'',
      createdAt_tx = ''2024-03-05T10:00:00.001Z''\<rparr>"
  by (simp add: new_transaction_def snack_def later_host_def example_host_def
      generateTransactionId_def id_1001 parse_5 or_default_def)


lemma new_freelance_first:
  "new_transaction example_host freelance =
     \<lparr>id_tx = ''rsabc'', description = Some ''Freelance'', amount = Fin 300,
      type_tx = ''income'', category = ''Outros'', date = ''2024-01-20'',
      createdAt_tx = ''2024-03-05T10:00:00.001Z''\<rparr>"
  by (simp add: new_transaction_def freelance_def example_host_def
      generateTransactionId_def id_1000 parse_300 or_default_def)

lemma two_added_account:
  assumes "currentUserObj dm = Some u"
  shows "currentUserObj (snd (addTransaction h2 d2 (snd (addTransaction h1 d1 dm)))) =
           Some (push_front (new_transaction h2 d2) (push_front (new_transaction h1 d1) u))"
proof -
  have 1: "currentUserObj (snd (addTransaction h1 d1 dm)) = Some (push_front (new_transaction h1 d1) u)"
    by (simp add: addTransaction_active [OF assms] currentUserObj_update [OF assms])
  show ?thesis
    by (simp add: addTransaction_active [OF 1] currentUserObj_update [OF 1])
qed


lemma date_ledger_account:
  "currentUserObj date_ledger =
     Some (push_front (new_transaction later_host snack)
            (push_front (new_transaction example_host freelance) example_account))"
  unfolding date_ledger_def by (rule two_added_account [OF registered_account])


lemma date_ledger_stored:
  "stored_transactions date_ledger =
     [new_transaction later_host snack, new_transaction example_host freelance]"
  by (simp add: stored_transactions_def date_ledger_account push_front_def example_account_def
      createUserStructure_def)


lemma date_ledger_2024_01:
  "getTransactionsByPeriod date_ledger ''2024-01'' =
     [new_transaction later_host snack, new_transaction example_host freelance]"
  by (simp add: getTransactionsByPeriod_stored date_ledger_stored trim_2024_01
      new_snack_later new_freelance_first)










section \<open>The order of the summary's transaction list\<close>

text \<open>
  Claim C8. The transaction list of the summary is sorted by date, latest first. The
  summary of \<open>DataManager.js\<close> returns the filtered list in stored order: after the
  20th is recorded and then the 10th, its list is the 10th followed by the 20th, where the
  summary of \<open>DataManager.ts\<close> gives the 20th followed by the 10th.
\<close>

theorem summary_js_keeps_stored_order:
  "map_option (\<lambda>s. map date (transactions_summary s))
     (getFinancialSummary_js date_ledger ''2024-01'') = Some [''2024-01-10'', ''2024-01-20''] \<and>
   map_option (\<lambda>s. map date (transactions_summary s))
     (getFinancialSummary example_getTime date_ledger ''2024-01'') =
     Some [''2024-01-20'', ''2024-01-10'']"
proof -
  have js: "getTransactionsByPeriod_js date_ledger ''2024-01'' =
              [new_transaction later_host snack, new_transaction example_host freelance]"
    by (simp add: getTransactionsByPeriod_js_def date_ledger_account push_front_def
        example_account_def createUserStructure_def startsWith_def new_snack_later
        new_freelance_first)
  have a: "map_option (\<lambda>s. map date (transactions_summary s))
             (getFinancialSummary_js date_ledger ''2024-01'') = Some [''2024-01-10'', ''2024-01-20'']"
    by (simp add: getFinancialSummary_js_def date_ledger_account js Let_def new_snack_later
        new_freelance_first)
  have b: "map_option (\<lambda>s. map date (transactions_summary s))
             (getFinancialSummary example_getTime date_ledger ''2024-01'') =
             Some [''2024-01-20'', ''2024-01-10'']"
    by (simp add: getFinancialSummary_active [OF date_ledger_account] date_ledger_2024_01
        new_snack_later new_freelance_first array_sort_def example_getTime_def jssub_def)
  from a b show ?thesis by simp
qed

text \<open>The sort of \<open>DataManager.ts\<close>, for dates the host can parse.\<close>

lemma jsgt_difference:
  "isFinite a \<Longrightarrow> isFinite b \<Longrightarrow> jsgt (jssub b a) (Fin 0) = jsgt b a"
  by (cases a; cases b) (simp_all add: jssub_def)

lemma jsgt_finite_trans:
  "isFinite a \<Longrightarrow> isFinite b \<Longrightarrow> isFinite c \<Longrightarrow>
   \<not> jsgt c b \<Longrightarrow> \<not> jsgt b a \<Longrightarrow> \<not> jsgt c a"
  by (cases a; cases b; cases c) simp_all

lemma jsgt_finite_less: "isFinite a \<Longrightarrow> isFinite b \<Longrightarrow> jsgt b a \<Longrightarrow> \<not> jsgt a b \<and> a \<noteq> b"
  by (cases a; cases b) simp_all

lemma set_sort_insert: "set (sort_insert cmp x ys) = insert x (set ys)"
  by (induction ys) auto

lemma length_sort_insert: "length (sort_insert cmp x ys) = Suc (length ys)"
  by (induction ys) auto

lemma set_array_sort: "set (array_sort cmp xs) = set xs"
  by (induction xs) (simp_all add: array_sort_def set_sort_insert)

lemma length_array_sort: "length (array_sort cmp xs) = length xs"
  by (induction xs) (simp_all add: array_sort_def length_sort_insert)

lemma sorted_sort_insert:
  assumes "\<forall>z\<in>insert x (set ys). isFinite (K z)"
    and "sorted_wrt (\<lambda>a b. \<not> jsgt (K b) (K a)) ys"
  shows "sorted_wrt (\<lambda>a b. \<not> jsgt (K b) (K a)) (sort_insert (\<lambda>a b. jssub (K b) (K a)) x ys)"
  using assms
proof (induction ys)
  case Nil
  show ?case by simp
next
  case (Cons y ys)
  have fx: "isFinite (K x)" and fy: "isFinite (K y)"
    using Cons.prems(1) by simp_all
  show ?case
  proof (cases "jsgt (K y) (K x)")
    case True
    have ih: "sorted_wrt (\<lambda>a b. \<not> jsgt (K b) (K a)) (sort_insert (\<lambda>a b. jssub (K b) (K a)) x ys)"
      using Cons.prems by (intro Cons.IH) simp_all
    have "\<not> jsgt (K x) (K y)"
      using jsgt_finite_less [OF fx fy True] by simp
    with True ih Cons.prems(2) show ?thesis
      by (simp add: jsgt_difference [OF fx fy] set_sort_insert)
  next
    case False
    have "\<not> jsgt (K z) (K x)" if "z \<in> set ys" for z
    proof -
      have "isFinite (K z)" using Cons.prems(1) that by simp
      moreover have "\<not> jsgt (K z) (K y)" using Cons.prems(2) that by simp
      ultimately show ?thesis
        using jsgt_finite_trans [OF fx fy _ _ False] by blast
    qed
    with False Cons.prems(2) show ?thesis
      by (simp add: jsgt_difference [OF fx fy])
  qed
qed

lemma sorted_array_sort:
  assumes "\<forall>z\<in>set xs. isFinite (K z)"
  shows "sorted_wrt (\<lambda>a b. \<not> jsgt (K b) (K a)) (array_sort (\<lambda>a b. jssub (K b) (K a)) xs)"
  using assms
proof (induction xs)
  case Nil
  show ?case by (simp add: array_sort_def)
next
  case (Cons x xs)
  have "sorted_wrt (\<lambda>a b. \<not> jsgt (K b) (K a))
          (sort_insert (\<lambda>a b. jssub (K b) (K a)) x (array_sort (\<lambda>a b. jssub (K b) (K a)) xs))"
    using Cons by (intro sorted_sort_insert) (simp_all add: set_array_sort)
  then show ?case by (simp add: array_sort_def)
qed

lemma filter_sort_insert:
  assumes "\<forall>z\<in>insert x (set ys). isFinite (K z)"
  shows "filter (\<lambda>t. K t = k) (sort_insert (\<lambda>a b. jssub (K b) (K a)) x ys) =
           filter (\<lambda>t. K t = k) (x # ys)"
  using assms
proof (induction ys)
  case Nil
  show ?case by simp
next
  case (Cons y ys)
  have fx: "isFinite (K x)" and fy: "isFinite (K y)"
    using Cons.prems by simp_all
  have ih: "filter (\<lambda>t. K t = k) (sort_insert (\<lambda>a b. jssub (K b) (K a)) x ys) =
              filter (\<lambda>t. K t = k) (x # ys)"
    using Cons.prems by (intro Cons.IH) simp
  show ?case
  proof (cases "jsgt (K y) (K x)")
    case True
    then have "K x \<noteq> K y"
      using jsgt_finite_less [OF fx fy] by simp
    with True ih show ?thesis
      by (auto simp: jsgt_difference [OF fx fy])
  next
    case False
    then show ?thesis by (simp add: jsgt_difference [OF fx fy])
  qed
qed

lemma filter_array_sort:
  assumes "\<forall>z\<in>set xs. isFinite (K z)"
  shows "filter (\<lambda>t. K t = k) (array_sort (\<lambda>a b. jssub (K b) (K a)) xs) = filter (\<lambda>t. K t = k) xs"
  using assms
proof (induction xs)
  case Nil
  show ?case by (simp add: array_sort_def)
next
  case (Cons x xs)
  have "filter (\<lambda>t. K t = k)
          (sort_insert (\<lambda>a b. jssub (K b) (K a)) x (array_sort (\<lambda>a b. jssub (K b) (K a)) xs)) =
        filter (\<lambda>t. K t = k) (x # array_sort (\<lambda>a b. jssub (K b) (K a)) xs)"
    using Cons.prems by (intro filter_sort_insert) (simp add: set_array_sort)
  with Cons show ?case by (simp add: array_sort_def)
qed

text \<open>
  In \<open>DataManager.ts\<close>, when the host parses the date of every transaction of the
  period, the list of the summary holds the period's transactions with no date followed by
  a later one, and transactions of equal date in their stored order.
\<close>

theorem summary_sorted_by_date:
  assumes "currentUserObj dm = Some u"
    and "\<forall>t\<in>set (getTransactionsByPeriod dm p). isFinite (gt (date t))"
  shows "\<exists>s. getFinancialSummary gt dm p = Some s \<and>
           sorted_wrt (\<lambda>a b. \<not> jsgt (gt (date b)) (gt (date a))) (transactions_summary s) \<and>
           (\<forall>k. filter (\<lambda>t. gt (date t) = k) (transactions_summary s) =
                filter (\<lambda>t. gt (date t) = k) (getTransactionsByPeriod dm p)) \<and>
           set (transactions_summary s) = set (getTransactionsByPeriod dm p) \<and>
           length (transactions_summary s) = length (getTransactionsByPeriod dm p)"
  using sorted_array_sort [of "getTransactionsByPeriod dm p" "\<lambda>t. gt (date t)", OF assms(2)]
    filter_array_sort [of "getTransactionsByPeriod dm p" "\<lambda>t. gt (date t)", OF assms(2)]
  by (simp add: getFinancialSummary_active [OF assms(1)] set_array_sort length_array_sort)

theorem summary_sorted_by_date_witness:
  "map (\<lambda>t. example_getTime (date t)) (getTransactionsByPeriod date_ledger ''2024-01'') =
     [Fin 1704844800000, Fin 1705708800000] \<and>
   map_option (\<lambda>s. map date (transactions_summary s))
     (getFinancialSummary example_getTime date_ledger ''2024-01'') =
     Some [''2024-01-20'', ''2024-01-10''] \<and>
   (\<exists>s. getFinancialSummary example_getTime date_ledger ''2024-01'' = Some s \<and>
        sorted_wrt (\<lambda>a b. \<not> jsgt (example_getTime (date b)) (example_getTime (date a)))
          (transactions_summary s))"
proof -
  have f: "\<forall>t\<in>set (getTransactionsByPeriod date_ledger ''2024-01''). isFinite (example_getTime (date t))"
    by (simp add: date_ledger_2024_01 new_snack_later new_freelance_first example_getTime_def)
  have m: "map (\<lambda>t. example_getTime (date t)) (getTransactionsByPeriod date_ledger ''2024-01'') =
     [Fin 1704844800000, Fin 1705708800000]"
    by (simp add: date_ledger_2024_01 new_snack_later new_freelance_first example_getTime_def)
  have b: "map_option (\<lambda>s. map date (transactions_summary s))
             (getFinancialSummary example_getTime date_ledger ''2024-01'') =
             Some [''2024-01-20'', ''2024-01-10'']"
    by (simp add: getFinancialSummary_active [OF date_ledger_account] date_ledger_2024_01
        new_snack_later new_freelance_first array_sort_def example_getTime_def jssub_def)
  show ?thesis
    using summary_sorted_by_date [OF date_ledger_account f] m b by blast
qed


end
